theory Spec2Isabelle
  imports Main
begin

section \<open>Responses, errors and the server log\<close>

text \<open>
  The repository holds two decision endpoints for the edge server's sub-request:
  \<^item> \<^verbatim>\<open>asset-auth-service.js\<close>: the DB-backed service. It verifies the \<^verbatim>\<open>jwt\<close> cookie
    with the RSA public key of Wiki.js and looks the subject's groups up in PostgreSQL.
  \<^item> \<^verbatim>\<open>mock-auth-service.js\<close> (written by \<^verbatim>\<open>tests/setup-test-environment.sh\<close>): the
    inline-claims service. It verifies the cookie with a shared secret and reads the
    groups from the token.

  \<open>res.status(n).send(s)\<close> is the record \<open>\<lparr>status = n, body = s\<rparr>\<close>. A thrown JavaScript
  error is a value with the two fields the handlers read, \<open>err.name\<close> and \<open>err.message\<close>.
  Every handler returns its response together with the lines it wrote to the console;
  the pictographs of the log texts are left out of the strings.
\<close>

record response =
  status :: nat
  body :: string

record js_error =
  name :: string
  message :: string

datatype log_entry =
    AuthRequestAt int            \<comment> \<open>the dated line \<open>AUTH REQUEST:\<close>\<close>
  | Line string
  | UserIdLine int               \<comment> \<open>\<open>User ID from JWT: ${userId}\<close>\<close>
  | EmailLine "string option"    \<comment> \<open>\<open>Email from JWT:\<close> or \<open>User:\<close> with \<open>decoded.email\<close>\<close>
  | GroupsLine "string list option"

definition send :: "nat \<Rightarrow> string \<Rightarrow> response" where
  "send n s = \<lparr>status = n, body = s\<rparr>"

section \<open>Credentials and the token verifier\<close>

text \<open>
  Signatures are symbolic. A key is a shared secret or one half of an RSA pair, the two
  halves of a pair carrying the same name. The signature segment of a token is absent
  (\<open>NoSignature\<close>), or was computed over this very header and payload with an algorithm
  and a signing key (\<open>Signed\<close>), or is anything else (\<open>Forged\<close>): a made-up segment, or
  a signature of a header or payload that was altered afterwards.
\<close>

datatype key = Secret string | RsaPublic string | RsaPrivate string

datatype signature = NoSignature | Forged | Signed string key

record jwt_payload =
  id_claim :: "int option"
  email_claim :: "string option"
  groups_claim :: "string list option"
  exp_claim :: "int option"

record token =
  alg :: string
  payload :: jwt_payload
  sig :: signature

text \<open>
  The value of the cookie: a string that does not parse as a token, or a token.
\<close>

datatype credential = Raw string | Jwt token

definition HS_ALGS :: "string list" where
  "HS_ALGS = [''HS256'', ''HS384'', ''HS512'']"

definition RSA_KEY_ALGS :: "string list" where
  "RSA_KEY_ALGS = [''RS256'', ''RS384'', ''RS512'']"

fun default_algorithms :: "key \<Rightarrow> string list" where
  "default_algorithms (Secret s) = HS_ALGS"
| "default_algorithms (RsaPublic n) = RSA_KEY_ALGS"
| "default_algorithms (RsaPrivate n) = RSA_KEY_ALGS"

fun key_verifies :: "string \<Rightarrow> key \<Rightarrow> key \<Rightarrow> bool" where
  "key_verifies a (Secret s) (Secret v) = (a \<in> set HS_ALGS \<and> s = v)"
| "key_verifies a (RsaPrivate n) (RsaPublic m) = (a \<in> set RSA_KEY_ALGS \<and> n = m)"
| "key_verifies a sk vk = False"

fun signature_valid :: "string \<Rightarrow> key \<Rightarrow> signature \<Rightarrow> bool" where
  "signature_valid a vk (Signed b sk) = (a = b \<and> key_verifies a sk vk)"
| "signature_valid a vk s = False"

definition JsonWebTokenError :: "string \<Rightarrow> js_error" where
  "JsonWebTokenError m = \<lparr>name = ''JsonWebTokenError'', message = m\<rparr>"

definition TokenExpiredError :: "string \<Rightarrow> js_error" where
  "TokenExpiredError m = \<lparr>name = ''TokenExpiredError'', message = m\<rparr>"

text \<open>
  Modelled from the spec: \<open>jwt.verify\<close> of the \<^verbatim>\<open>jsonwebtoken\<close> package, the Token
  Verifier of section 4.1, whose code is a dependency installed by \<^verbatim>\<open>npm\<close> and is not in
  the repository. The handlers fix its interface: the call takes the cookie value, the
  key and an optional \<open>algorithms\<close> list, returns the decoded payload and throws errors
  named \<open>JsonWebTokenError\<close> and \<open>TokenExpiredError\<close>. The checks follow section 4.1 in
  its order: malformed input fails first; a token of an algorithm outside the accepted
  ones is rejected, an absent signature too; the signature is verified with the key; the
  expiry is compared with the current time. Without an \<open>algorithms\<close> option the accepted
  algorithms are the family of the key. Claims the spec does not name (not-before,
  audience, issuer) are outside the model.
\<close>

definition jwt_verify ::
  "credential \<Rightarrow> key \<Rightarrow> string list option \<Rightarrow> int \<Rightarrow> js_error + jwt_payload" where
  "jwt_verify jwtToken secretOrPublicKey algorithms clock =
     (case jwtToken of
        Raw s \<Rightarrow> Inl (JsonWebTokenError ''jwt malformed'')
      | Jwt t \<Rightarrow>
          if sig t = NoSignature then Inl (JsonWebTokenError ''jwt signature is required'')
          else if alg t \<notin> set (case algorithms of
                                  Some as \<Rightarrow> as
                                | None \<Rightarrow> default_algorithms secretOrPublicKey)
          then Inl (JsonWebTokenError ''invalid algorithm'')
          else if \<not> signature_valid (alg t) secretOrPublicKey (sig t)
          then Inl (JsonWebTokenError ''invalid signature'')
          else (case exp_claim (payload t) of
                  None \<Rightarrow> Inr (payload t)
                | Some e \<Rightarrow>
                    if clock \<ge> e then Inl (TokenExpiredError ''jwt expired'')
                    else Inr (payload t)))"

text \<open>
  \<open>if (!jwtToken)\<close>: the cookie is absent or is the empty string.
\<close>

fun no_token :: "credential option \<Rightarrow> bool" where
  "no_token None = True"
| "no_token (Some (Raw s)) = (s = [])"
| "no_token (Some (Jwt t)) = False"

section \<open>The identity store\<close>

text \<open>
  The three tables of the Wiki.js database that the queries read. A \<open>pool\<close> is the
  database together with the queries of one request, counted from 0, that the store
  fails (connection lost, timeout): \<open>pool.query\<close> then rejects with an error of the
  \<^verbatim>\<open>pg\<close> driver, whose name is \<open>Error\<close>.
\<close>

record user_row =
  user_id :: int
  user_email :: string

record userGroup_row =
  ug_userId :: int
  ug_groupId :: int

record group_row =
  group_id :: int
  group_name :: string

record database =
  users :: "user_row list"
  userGroups :: "userGroup_row list"
  groups :: "group_row list"

record pool =
  db :: database
  failing :: "nat list"

definition pool_query :: "pool \<Rightarrow> nat \<Rightarrow> (database \<Rightarrow> 'r list) \<Rightarrow> js_error + 'r list" where
  "pool_query p k q =
     (if k \<in> set (failing p) then Inl \<lparr>name = ''Error'', message = ''connection terminated''\<rparr>
      else Inr (q (db p)))"

text \<open>
  The first query: the join of the three tables, restricted to the user and to the
  groups named \<open>$2\<close> or \<open>Administrators\<close>, cut to one row. Each row is
  \<open>(user_id, user_email, group_name)\<close>.
\<close>

definition membership_rows :: "int \<Rightarrow> string \<Rightarrow> database \<Rightarrow> (int \<times> string \<times> string) list" where
  "membership_rows userId groupName d =
     take 1 (concat (map (\<lambda>u. concat (map (\<lambda>ug. concat (map (\<lambda>g.
        if user_id u = ug_userId ug \<and> ug_groupId ug = group_id g
           \<and> user_id u = userId
           \<and> (group_name g = groupName \<or> group_name g = ''Administrators'')
        then [(user_id u, user_email u, group_name g)] else [])
      (groups d))) (userGroups d))) (users d)))"

text \<open>The second query: the e-mail addresses of the users with this id.\<close>

definition user_rows :: "int \<Rightarrow> database \<Rightarrow> string list" where
  "user_rows userId d = map user_email (filter (\<lambda>u. user_id u = userId) (users d))"

section \<open>The DB-backed service\<close>

record server =
  JWT_PUBLIC_KEY :: key
  pool :: pool
  clock :: int

record request =
  params_groupName :: string
  params_assetPath :: "string option"
  cookies_jwt :: "credential option"

text \<open>
  The body of the \<open>try\<close> block of \<open>authenticateRequest\<close>: it returns a response or throws,
  and in both cases has written its log lines.
\<close>

definition authenticate_try ::
  "server \<Rightarrow> string \<Rightarrow> credential \<Rightarrow> (js_error + response) \<times> log_entry list" where
  "authenticate_try srv groupName jwtToken =
     (case jwt_verify jwtToken (JWT_PUBLIC_KEY srv) (Some [''RS256'']) (clock srv) of
        Inl err \<Rightarrow> (Inl err, [])
      | Inr decoded \<Rightarrow>
          (case id_claim decoded of
             None \<Rightarrow> (Inr (send 403 ''Invalid JWT payload''),
                       [Line ''  Result: DENIED (invalid JWT payload)''])
           | Some userId \<Rightarrow>
               if userId = 0
               then (Inr (send 403 ''Invalid JWT payload''),
                     [Line ''  Result: DENIED (invalid JWT payload)''])
               else
                 (let log1 = [UserIdLine userId, EmailLine (email_claim decoded)] in
                  case pool_query (pool srv) 0 (membership_rows userId groupName) of
                    Inl err \<Rightarrow> (Inl err, log1)
                  | Inr rows \<Rightarrow>
                      (case rows of
                         user # rest \<Rightarrow>
                           (Inr (send 200 ''OK''),
                            log1 @ [Line (''  User: '' @ fst (snd user)),
                                    (if snd (snd user) = ''Administrators''
                                     then Line ''  Result: ALLOWED (Administrator - full access)''
                                     else Line (''  Result: ALLOWED (in group \"'' @ groupName @ ''\")''))])
                       | [] \<Rightarrow>
                           (case pool_query (pool srv) 1 (user_rows userId) of
                              Inl err \<Rightarrow> (Inl err, log1)
                            | Inr userCheck \<Rightarrow>
                                (case userCheck of
                                   e # rest \<Rightarrow>
                                     (Inr (send 403 (''Not in group \"'' @ groupName @ ''\" or Administrators'')),
                                      log1 @ [Line (''  User: '' @ e),
                                              Line (''  Result: DENIED (not in group \"'' @ groupName
                                                      @ ''\" or Administrators)'')])
                                 | [] \<Rightarrow>
                                     (Inr (send 403 ''User not found''),
                                      log1 @ [Line ''  Result: DENIED (user not found)''])))))))"

text \<open>The \<open>catch\<close> block.\<close>

definition authenticate_catch :: "js_error \<Rightarrow> response \<times> log_entry list" where
  "authenticate_catch err =
     (if name err = ''JsonWebTokenError''
      then (send 403 ''Invalid JWT signature'',
            [Line (''  Result: DENIED (JWT verification failed: '' @ message err @ '')'')])
      else if name err = ''TokenExpiredError''
      then (send 403 ''JWT expired'', [Line ''  Result: DENIED (JWT expired)''])
      else (send 500 ''Server error'', [Line (''  Result: ERROR: '' @ message err)]))"

definition authenticateRequest :: "server \<Rightarrow> request \<Rightarrow> response \<times> log_entry list" where
  "authenticateRequest srv req =
     (let groupName = params_groupName req;
          assetPath = (case params_assetPath req of None \<Rightarrow> [] | Some a \<Rightarrow> a);
          log0 = [AuthRequestAt (clock srv),
                  Line (''  Group: '' @ groupName),
                  Line (''  Asset: '' @ assetPath)]
      in case cookies_jwt req of
           None \<Rightarrow> (send 403 ''No JWT token'', log0 @ [Line ''  Result: DENIED (no JWT token)''])
         | Some jwtToken \<Rightarrow>
             if no_token (Some jwtToken)
             then (send 403 ''No JWT token'', log0 @ [Line ''  Result: DENIED (no JWT token)''])
             else (case authenticate_try srv groupName jwtToken of
                     (Inr res, lg) \<Rightarrow> (res, log0 @ lg)
                   | (Inl err, lg) \<Rightarrow>
                       (case authenticate_catch err of (res, lg') \<Rightarrow> (res, log0 @ lg @ lg'))))"

section \<open>The inline-claims service\<close>

text \<open>
  \<^verbatim>\<open>mock-auth-service.js\<close>. Its route is a regular expression, so the parameters are
  \<open>req.params[0]\<close> and \<open>req.params[1]\<close>. \<open>decoded.groups.includes(x)\<close> on an array of
  strings is membership; on a payload without \<open>groups\<close> it throws a \<open>TypeError\<close>, which
  the \<open>catch\<close> block of the handler receives like every other error.
\<close>

definition JWT_SECRET :: key where
  "JWT_SECRET = Secret ''test-secret-key''"

record mock_request =
  params_0 :: string
  params_1 :: string
  mock_cookies_jwt :: "credential option"

definition array_includes :: "string list \<Rightarrow> string \<Rightarrow> bool" where
  "array_includes xs x = (x \<in> set xs)"

definition mock_try :: "int \<Rightarrow> string \<Rightarrow> credential \<Rightarrow> (js_error + response) \<times> log_entry list" where
  "mock_try now groupName jwtToken =
     (case jwt_verify jwtToken JWT_SECRET None now of
        Inl err \<Rightarrow> (Inl err, [])
      | Inr decoded \<Rightarrow>
          (let log1 = [EmailLine (email_claim decoded), GroupsLine (groups_claim decoded)] in
           case groups_claim decoded of
             None \<Rightarrow>
               (Inl \<lparr>name = ''TypeError'',
                     message = ''Cannot read properties of undefined (reading includes)''\<rparr>, log1)
           | Some gs \<Rightarrow>
               if array_includes gs ''Administrators'' \<or> array_includes gs groupName
               then (Inr (send 200 ''OK''),
                     log1 @ [if array_includes gs ''Administrators''
                             then Line ''  Result: ALLOWED (Administrator)''
                             else Line (''  Result: ALLOWED (in group \"'' @ groupName @ ''\")'')])
               else (Inr (send 403 ''Access denied''),
                     log1 @ [Line (''  Result: DENIED (not in group \"'' @ groupName @ ''\")'')])))"

definition mock_handler :: "int \<Rightarrow> mock_request \<Rightarrow> response \<times> log_entry list" where
  "mock_handler now req =
     (let groupName = params_0 req;
          assetPath = params_1 req;
          log0 = [AuthRequestAt now,
                  Line (''  Group: '' @ groupName),
                  Line (''  Asset: '' @ assetPath)]
      in case mock_cookies_jwt req of
           None \<Rightarrow> (send 403 ''No JWT'', log0 @ [Line ''  Result: DENIED (no JWT)''])
         | Some jwtToken \<Rightarrow>
             if no_token (Some jwtToken)
             then (send 403 ''No JWT'', log0 @ [Line ''  Result: DENIED (no JWT)''])
             else (case mock_try now groupName jwtToken of
                     (Inr res, lg) \<Rightarrow> (res, log0 @ lg)
                   | (Inl err, lg) \<Rightarrow>
                       (send 403 ''Invalid JWT'',
                        log0 @ lg @ [Line (''  Result: DENIED (invalid JWT: '' @ message err @ '')'')])))"

section \<open>Routing\<close>

text \<open>
  A request of the edge server: the path of its URL and the \<open>jwt\<close> cookie. The routes of
  Express are tried in the order of their registration; a path that no route matches is
  answered by the framework with status 404. The paths of the model are spelled as the
  routes are (Express compares the fixed part \<open>/auth\<close> without regard to case) and carry
  no percent escapes (Express decodes them in the parameters).

  A route \<open>/auth/:groupName/:assetPath\<close> matches a path of exactly these three
  segments, each parameter a non-empty segment without \<open>/\<close>, with or without a trailing
  \<open>/\<close>; the route \<open>/auth/:groupName\<close> matches two segments in the same way.
\<close>

record http_request =
  url :: string
  jwt_cookie :: "credential option"

fun split_slash :: "string \<Rightarrow> string list" where
  "split_slash [] = [[]]"
| "split_slash (c # cs) =
     (if c = CHR ''/'' then [] # split_slash cs
      else (case split_slash cs of
              [] \<Rightarrow> [[c]]
            | s # ss \<Rightarrow> (c # s) # ss))"

fun route_file :: "string list \<Rightarrow> (string \<times> string) option" where
  "route_file [e, a, g, f] =
     (if e = [] \<and> a = ''auth'' \<and> g \<noteq> [] \<and> f \<noteq> [] then Some (g, f) else None)"
| "route_file [e, a, g, f, t] =
     (if e = [] \<and> a = ''auth'' \<and> g \<noteq> [] \<and> f \<noteq> [] \<and> t = [] then Some (g, f) else None)"
| "route_file segs = None"

fun route_directory :: "string list \<Rightarrow> string option" where
  "route_directory [e, a, g] =
     (if e = [] \<and> a = ''auth'' \<and> g \<noteq> [] then Some g else None)"
| "route_directory [e, a, g, t] =
     (if e = [] \<and> a = ''auth'' \<and> g \<noteq> [] \<and> t = [] then Some g else None)"
| "route_directory segs = None"

fun route_health :: "string list \<Rightarrow> bool" where
  "route_health [e, h] = (e = [] \<and> h = ''health'')"
| "route_health [e, h, t] = (e = [] \<and> h = ''health'' \<and> t = [])"
| "route_health segs = False"

text \<open>
  The answer of Express to a path that no route matches. Its status is 404; its body is
  an HTML error page, of which the model keeps the message line only, so the properties
  below speak of the status of this response and not of its body.
\<close>

definition not_found :: "string \<Rightarrow> response \<times> log_entry list" where
  "not_found p = (send 404 (''Cannot GET '' @ p), [])"

definition app :: "server \<Rightarrow> http_request \<Rightarrow> response \<times> log_entry list" where
  "app srv r =
     (let segs = split_slash (url r) in
      case route_file segs of
        Some (g, f) \<Rightarrow>
          authenticateRequest srv
            \<lparr>params_groupName = g, params_assetPath = Some f, cookies_jwt = jwt_cookie r\<rparr>
      | None \<Rightarrow>
          (case route_directory segs of
             Some g \<Rightarrow>
               authenticateRequest srv
                 \<lparr>params_groupName = g, params_assetPath = None, cookies_jwt = jwt_cookie r\<rparr>
           | None \<Rightarrow>
               if route_health segs then (send 200 ''OK'', []) else not_found (url r)))"

text \<open>
  The route of the inline-claims service is the regular expression
  \<^verbatim>\<open>^\/auth\/([^\/]+)\/(.+)$\<close>: after \<open>/auth/\<close> a non-empty first segment, a \<open>/\<close>, and a
  non-empty rest in which \<open>.\<close> matches every character but a line terminator.
\<close>

definition mock_route :: "string \<Rightarrow> (string \<times> string) option" where
  "mock_route p =
     (if take 6 p = ''/auth/''
      then (let rest = drop 6 p;
                g = takeWhile (\<lambda>c. c \<noteq> CHR ''/'') rest;
                r = dropWhile (\<lambda>c. c \<noteq> CHR ''/'') rest
            in if g \<noteq> [] \<and> r \<noteq> [] \<and> tl r \<noteq> []
                  \<and> CHR 0x0A \<notin> set (tl r) \<and> CHR 0x0D \<notin> set (tl r)
               then Some (g, tl r) else None)
      else None)"

definition mock_app :: "int \<Rightarrow> http_request \<Rightarrow> response \<times> log_entry list" where
  "mock_app now r =
     (case mock_route (url r) of
        Some (g, a) \<Rightarrow>
          mock_handler now \<lparr>params_0 = g, params_1 = a, mock_cookies_jwt = jwt_cookie r\<rparr>
      | None \<Rightarrow>
          if route_health (split_slash (url r)) then (send 200 ''OK'', []) else not_found (url r))"

section \<open>Notions the properties are stated with\<close>

text \<open>
  The groups of a user in the store: the join of the first query without its restriction
  on the name of the group.
\<close>

definition memberships :: "database \<Rightarrow> int \<Rightarrow> string list" where
  "memberships d userId =
     concat (map (\<lambda>u. concat (map (\<lambda>ug. concat (map (\<lambda>g.
        if user_id u = ug_userId ug \<and> ug_groupId ug = group_id g \<and> user_id u = userId
        then [group_name g] else [])
      (groups d))) (userGroups d))) (users d))"

text \<open>The expiry time of the token is not after the current time.\<close>

definition token_expired :: "int \<Rightarrow> token \<Rightarrow> bool" where
  "token_expired now t = (case exp_claim (payload t) of None \<Rightarrow> False | Some e \<Rightarrow> e \<le> now)"

text \<open>
  The group of the route of the DB-backed service that a path matches, if it matches
  one: the file route is tried before the directory route, as in \<open>app\<close>.
\<close>

definition routed_group :: "string \<Rightarrow> string option" where
  "routed_group p =
     (case route_file (split_slash p) of
        Some (g, f) \<Rightarrow> Some g
      | None \<Rightarrow> route_directory (split_slash p))"

text \<open>
  Sample data: the key pair and the store of a Wiki.js instance, tokens of an
  administrator and of a manager, and the tokens of \<^verbatim>\<open>generate-token.js\<close>.
\<close>

definition sample_db :: database where
  "sample_db =
     \<lparr>users = [\<lparr>user_id = 1, user_email = ''admin@test.com''\<rparr>,
               \<lparr>user_id = 3, user_email = ''manager@test.com''\<rparr>],
      userGroups = [\<lparr>ug_userId = 1, ug_groupId = 1\<rparr>, \<lparr>ug_userId = 3, ug_groupId = 4\<rparr>],
      groups = [\<lparr>group_id = 1, group_name = ''Administrators''\<rparr>,
                \<lparr>group_id = 4, group_name = ''managers''\<rparr>]\<rparr>"

definition sample_server :: server where
  "sample_server =
     \<lparr>JWT_PUBLIC_KEY = RsaPublic ''wiki'', pool = \<lparr>db = sample_db, failing = []\<rparr>, clock = 1000\<rparr>"

definition wiki_token :: "int \<Rightarrow> string \<Rightarrow> token" where
  "wiki_token uid mail =
     \<lparr>alg = ''RS256'',
      payload = \<lparr>id_claim = Some uid, email_claim = Some mail, groups_claim = None,
                 exp_claim = Some 2000\<rparr>,
      sig = Signed ''RS256'' (RsaPrivate ''wiki'')\<rparr>"

definition test_token :: "string \<Rightarrow> string \<Rightarrow> string list \<Rightarrow> token" where
  "test_token a mail gs =
     \<lparr>alg = a,
      payload = \<lparr>id_claim = None, email_claim = Some mail, groups_claim = Some gs,
                 exp_claim = Some 4600\<rparr>,
      sig = Signed a (Secret ''test-secret-key'')\<rparr>"

text \<open>
  A token that claims the administrators' group and identity but carries a signature
  segment that no key produced (test 3 of the automated suite).
\<close>

definition spoofed_token :: "string \<Rightarrow> token" where
  "spoofed_token a =
     \<lparr>alg = a,
      payload = \<lparr>id_claim = Some 1, email_claim = Some ''admin@fake.com'',
                 groups_claim = Some [''managers'', ''Administrators''], exp_claim = None\<rparr>,
      sig = Forged\<rparr>"

text \<open>
  A token that declares the algorithm \<open>none\<close> and carries no signature segment.
\<close>

definition none_token :: token where
  "none_token =
     \<lparr>alg = ''none'',
      payload = \<lparr>id_claim = Some 1, email_claim = Some ''admin@fake.com'',
                 groups_claim = Some [''Administrators''], exp_claim = None\<rparr>,
      sig = NoSignature\<rparr>"

section \<open>Facts about the handlers\<close>

lemma jwt_verify_error_name:
  "jwt_verify c k as now = Inl e \<Longrightarrow> name e = ''JsonWebTokenError'' \<or> name e = ''TokenExpiredError''"
  by (auto simp: jwt_verify_def JsonWebTokenError_def TokenExpiredError_def
           split: credential.splits if_splits option.splits)

lemma authenticateRequest_response:
  "fst (authenticateRequest srv req) =
     (case cookies_jwt req of
        None \<Rightarrow> send 403 ''No JWT token''
      | Some c \<Rightarrow>
          if no_token (Some c) then send 403 ''No JWT token''
          else (case fst (authenticate_try srv (params_groupName req) c) of
                  Inr res \<Rightarrow> res
                | Inl err \<Rightarrow> fst (authenticate_catch err)))"
  by (simp add: authenticateRequest_def Let_def split: option.splits sum.splits prod.splits)

lemma mock_handler_response:
  "fst (mock_handler now req) =
     (case mock_cookies_jwt req of
        None \<Rightarrow> send 403 ''No JWT''
      | Some c \<Rightarrow>
          if no_token (Some c) then send 403 ''No JWT''
          else (case fst (mock_try now (params_0 req) c) of
                  Inr res \<Rightarrow> res
                | Inl err \<Rightarrow> send 403 ''Invalid JWT''))"
  by (simp add: mock_handler_def Let_def split: option.splits sum.splits prod.splits)

lemma try_verify_fails:
  "jwt_verify c (JWT_PUBLIC_KEY srv) (Some [''RS256'']) (clock srv) = Inl e \<Longrightarrow>
   fst (authenticate_try srv g c) = Inl e"
  by (simp add: authenticate_try_def)

lemma mock_try_verify_fails:
  "jwt_verify c JWT_SECRET None now = Inl e \<Longrightarrow> fst (mock_try now g c) = Inl e"
  by (simp add: mock_try_def)

lemma concat_map_nonempty: "concat (map f xs) \<noteq> [] \<longleftrightarrow> (\<exists>x\<in>set xs. f x \<noteq> [])"
  by (induction xs) auto

lemma take_one_nonempty: "take 1 xs \<noteq> [] \<longleftrightarrow> xs \<noteq> []"
  by (cases xs) auto

lemma membership_rows_exists:
  "membership_rows uid g d \<noteq> [] \<longleftrightarrow>
     (\<exists>u\<in>set (users d). \<exists>ug\<in>set (userGroups d). \<exists>gr\<in>set (groups d).
        user_id u = ug_userId ug \<and> ug_groupId ug = group_id gr \<and> user_id u = uid
        \<and> (group_name gr = g \<or> group_name gr = ''Administrators''))"
  unfolding membership_rows_def take_one_nonempty concat_map_nonempty
  by auto

lemma memberships_member:
  "x \<in> set (memberships d uid) \<longleftrightarrow>
     (\<exists>u\<in>set (users d). \<exists>ug\<in>set (userGroups d). \<exists>gr\<in>set (groups d).
        user_id u = ug_userId ug \<and> ug_groupId ug = group_id gr \<and> user_id u = uid
        \<and> group_name gr = x)"
  by (auto simp: memberships_def)

lemma membership_rows_nonempty:
  "membership_rows uid g d \<noteq> [] \<longleftrightarrow>
     g \<in> set (memberships d uid) \<or> ''Administrators'' \<in> set (memberships d uid)"
  unfolding membership_rows_exists memberships_member by blast

lemma catch_verify_error:
  "jwt_verify c k as now = Inl e \<Longrightarrow> status (fst (authenticate_catch e)) = 403"
  by (auto simp: authenticate_catch_def send_def dest: jwt_verify_error_name)

lemma verify_rejects:
  "(\<exists>s. c = Raw s) \<or> (\<exists>t. c = Jwt t \<and> (token_expired now t \<or> \<not> signature_valid (alg t) k (sig t)))
   \<Longrightarrow> \<exists>e. jwt_verify c k as now = Inl e"
  by (auto simp: jwt_verify_def token_expired_def split: option.splits)

lemma verified_is_token:
  "jwt_verify c k as now = Inr d \<Longrightarrow> \<not> no_token (Some c)"
  by (cases c) (simp_all add: jwt_verify_def)

lemma try_verified:
  "jwt_verify c (JWT_PUBLIC_KEY srv) (Some [''RS256'']) (clock srv) = Inr decoded \<Longrightarrow>
   id_claim decoded = Some uid \<Longrightarrow> uid \<noteq> 0 \<Longrightarrow>
   fst (authenticate_try srv g c) =
     (case pool_query (pool srv) 0 (membership_rows uid g) of
        Inl err \<Rightarrow> Inl err
      | Inr rows \<Rightarrow>
          if rows \<noteq> [] then Inr (send 200 ''OK'')
          else (case pool_query (pool srv) 1 (user_rows uid) of
                  Inl err \<Rightarrow> Inl err
                | Inr userCheck \<Rightarrow>
                    if userCheck \<noteq> []
                    then Inr (send 403 (''Not in group \"'' @ g @ ''\" or Administrators''))
                    else Inr (send 403 ''User not found'')))"
  by (simp add: authenticate_try_def Let_def split: sum.splits list.splits)

lemma authenticateRequest_verified:
  assumes "jwt_verify c (JWT_PUBLIC_KEY srv) (Some [''RS256'']) (clock srv) = Inr decoded"
    and "id_claim decoded = Some uid" and "uid \<noteq> 0"
  shows "fst (authenticateRequest srv \<lparr>params_groupName = g, params_assetPath = a, cookies_jwt = Some c\<rparr>) =
     (if 0 \<in> set (failing (pool srv)) then send 500 ''Server error''
      else if g \<in> set (memberships (db (pool srv)) uid)
              \<or> ''Administrators'' \<in> set (memberships (db (pool srv)) uid)
      then send 200 ''OK''
      else if 1 \<in> set (failing (pool srv)) then send 500 ''Server error''
      else if user_rows uid (db (pool srv)) \<noteq> []
      then send 403 (''Not in group \"'' @ g @ ''\" or Administrators'')
      else send 403 ''User not found'')"
  using verified_is_token [OF assms(1)] try_verified [OF assms, of g]
        membership_rows_nonempty [of uid g "db (pool srv)"]
  by (simp add: authenticateRequest_response pool_query_def authenticate_catch_def)

lemma mock_handler_verified:
  assumes "jwt_verify c JWT_SECRET None now = Inr decoded"
    and "groups_claim decoded = Some gs"
  shows "fst (mock_handler now \<lparr>params_0 = g, params_1 = f, mock_cookies_jwt = Some c\<rparr>) =
     (if ''Administrators'' \<in> set gs \<or> g \<in> set gs then send 200 ''OK''
      else send 403 ''Access denied'')"
  using verified_is_token [OF assms(1)] assms
  by (simp add: mock_handler_response mock_try_def array_includes_def Let_def)

lemma verify_bad_signature:
  "\<not> signature_valid (alg t) k (sig t) \<Longrightarrow>
   \<exists>e. jwt_verify (Jwt t) k as now = Inl e \<and> name e = ''JsonWebTokenError''"
  by (auto simp: jwt_verify_def JsonWebTokenError_def)


lemma verify_wrong_algorithm:
  "alg t \<notin> set as \<Longrightarrow>
   \<exists>e. jwt_verify (Jwt t) k (Some as) now = Inl e \<and> name e = ''JsonWebTokenError''"
  by (simp add: jwt_verify_def JsonWebTokenError_def)

lemma verify_accepts:
  "alg t \<in> set as \<Longrightarrow> signature_valid (alg t) k (sig t) \<Longrightarrow> \<not> token_expired now t \<Longrightarrow>
   jwt_verify (Jwt t) k (Some as) now = Inr (payload t)"
  by (cases "sig t") (auto simp: jwt_verify_def token_expired_def split: option.splits)

lemma authenticate_try_responses:
  "fst (authenticate_try srv g c) = Inr res \<Longrightarrow>
   res \<in> {send 200 ''OK'', send 403 ''Invalid JWT payload'', send 403 ''User not found'',
           send 403 (''Not in group \"'' @ g @ ''\" or Administrators'')}"
  by (auto simp: authenticate_try_def Let_def split: sum.splits option.splits if_splits list.splits)

lemma authenticate_catch_responses:
  "fst (authenticate_catch e) \<in> {send 403 ''Invalid JWT signature'', send 403 ''JWT expired'',
           send 500 ''Server error''}"
  by (simp add: authenticate_catch_def)

lemma mock_try_responses:
  "fst (mock_try now g c) = Inr res \<Longrightarrow> res \<in> {send 200 ''OK'', send 403 ''Access denied''}"
  by (auto simp: mock_try_def Let_def split: sum.splits option.splits if_splits)

lemma authenticateRequest_asset_path:
  "fst (authenticateRequest srv \<lparr>params_groupName = g, params_assetPath = a1, cookies_jwt = c\<rparr>)
   = fst (authenticateRequest srv \<lparr>params_groupName = g, params_assetPath = a2, cookies_jwt = c\<rparr>)"
  by (simp add: authenticateRequest_response split: option.splits)

lemma app_routed:
  "routed_group u = Some g \<Longrightarrow>
   fst (app srv \<lparr>url = u, jwt_cookie = c\<rparr>)
   = fst (authenticateRequest srv \<lparr>params_groupName = g, params_assetPath = None, cookies_jwt = c\<rparr>)"
  by (auto simp: routed_group_def app_def authenticateRequest_response split: option.splits)

lemma mock_app_routed:
  "mock_route u = Some (g, f) \<Longrightarrow>
   fst (mock_app now \<lparr>url = u, jwt_cookie = c\<rparr>)
   = fst (mock_handler now \<lparr>params_0 = g, params_1 = [], mock_cookies_jwt = c\<rparr>)"
  by (simp add: mock_app_def mock_handler_response split: option.splits)

lemma asset_path_is_logged:
  "snd (authenticateRequest sample_server
      \<lparr>params_groupName = ''managers'', params_assetPath = Some ''a.pdf'', cookies_jwt = None\<rparr>)
   \<noteq> snd (authenticateRequest sample_server
      \<lparr>params_groupName = ''managers'', params_assetPath = Some ''b.pdf'', cookies_jwt = None\<rparr>)"
  by (simp add: authenticateRequest_def)












lemma authenticateRequest_verifier_error:
  assumes "\<not> no_token (Some x)"
    and "jwt_verify x (JWT_PUBLIC_KEY srv) (Some [''RS256'']) (clock srv) = Inl e"
  shows "fst (authenticateRequest srv \<lparr>params_groupName = g, params_assetPath = a, cookies_jwt = Some x\<rparr>)
     = (if name e = ''JsonWebTokenError'' then send 403 ''Invalid JWT signature''
        else send 403 ''JWT expired'')"
  using assms(1) try_verify_fails [OF assms(2), of g] jwt_verify_error_name [OF assms(2)]
  by (auto simp: authenticateRequest_response authenticate_catch_def)

lemma authenticateRequest_invalid_payload:
  assumes "jwt_verify x (JWT_PUBLIC_KEY srv) (Some [''RS256'']) (clock srv) = Inr decoded"
    and "id_claim decoded = None \<or> id_claim decoded = Some 0"
  shows "fst (authenticateRequest srv \<lparr>params_groupName = g, params_assetPath = a, cookies_jwt = Some x\<rparr>)
     = send 403 ''Invalid JWT payload''"
  using verified_is_token [OF assms(1)] assms
  by (auto simp: authenticateRequest_response authenticate_try_def)

lemma mock_handler_verifier_error:
  assumes "\<not> no_token (Some x)" and "jwt_verify x JWT_SECRET None now = Inl e"
  shows "fst (mock_handler now \<lparr>params_0 = g, params_1 = f, mock_cookies_jwt = Some x\<rparr>)
     = send 403 ''Invalid JWT''"
  using assms(1) mock_try_verify_fails [OF assms(2), of g]
  by (simp add: mock_handler_response)

lemma verify_malformed:
  "jwt_verify (Raw s) k as now = Inl (JsonWebTokenError ''jwt malformed'')"
  by (simp add: jwt_verify_def)

lemma verify_expired:
  "alg t \<in> set as \<Longrightarrow> signature_valid (alg t) k (sig t) \<Longrightarrow> token_expired now t \<Longrightarrow>
   jwt_verify (Jwt t) k (Some as) now = Inl (TokenExpiredError ''jwt expired'')"
  by (cases "sig t") (auto simp: jwt_verify_def token_expired_def split: option.splits)

lemma responses_enumerated:
  "fst (authenticateRequest srv req) \<in>
     {send 200 ''OK'',
      send 403 ''No JWT token'',
      send 403 ''Invalid JWT payload'',
      send 403 ''Invalid JWT signature'',
      send 403 ''JWT expired'',
      send 403 ''User not found'',
      send 403 (''Not in group \"'' @ params_groupName req @ ''\" or Administrators''),
      send 500 ''Server error''}
   \<and> fst (mock_handler now mreq) \<in>
     {send 200 ''OK'', send 403 ''No JWT'', send 403 ''Invalid JWT'', send 403 ''Access denied''}"
proof
  show "fst (authenticateRequest srv req) \<in>
     {send 200 ''OK'',
      send 403 ''No JWT token'',
      send 403 ''Invalid JWT payload'',
      send 403 ''Invalid JWT signature'',
      send 403 ''JWT expired'',
      send 403 ''User not found'',
      send 403 (''Not in group \"'' @ params_groupName req @ ''\" or Administrators''),
      send 500 ''Server error''}"
  proof (cases "cookies_jwt req")
    case None
    then show ?thesis by (simp add: authenticateRequest_response)
  next
    case (Some c)
    show ?thesis
    proof (cases "fst (authenticate_try srv (params_groupName req) c)")
      case (Inl e)
      with Some authenticate_catch_responses [of e] show ?thesis
        by (auto simp: authenticateRequest_response)
    next
      case (Inr res)
      with Some authenticate_try_responses [OF Inr] show ?thesis
        by (auto simp: authenticateRequest_response)
    qed
  qed
next
  show "fst (mock_handler now mreq) \<in>
     {send 200 ''OK'', send 403 ''No JWT'', send 403 ''Invalid JWT'', send 403 ''Access denied''}"
  proof (cases "mock_cookies_jwt mreq")
    case None
    then show ?thesis by (simp add: mock_handler_response)
  next
    case (Some c)
    show ?thesis
    proof (cases "fst (mock_try now (params_0 mreq) c)")
      case (Inl e)
      with Some show ?thesis
        by (auto simp: mock_handler_response)
    next
      case (Inr res)
      with Some mock_try_responses [OF Inr] show ?thesis
        by (auto simp: mock_handler_response)
    qed
  qed
qed

section \<open>Fail-closed decisions\<close>

text \<open>
  Claim C1. A request whose \<open>jwt\<close> cookie is missing or empty, does not parse as a token,
  is expired, or carries a signature that does not verify under the service's key, is
  answered with status 403 by the DB-backed service and by the inline-claims service,
  whatever the token claims about groups or identity, whatever group is requested and
  whatever the state of the identity store.
\<close>

theorem fail_closed:
  "(no_token c \<or> (\<exists>s. c = Some (Raw s))
      \<or> (\<exists>t. c = Some (Jwt t)
             \<and> (token_expired (clock srv) t \<or> \<not> signature_valid (alg t) (JWT_PUBLIC_KEY srv) (sig t)))
    \<longrightarrow> status (fst (authenticateRequest srv
            \<lparr>params_groupName = g, params_assetPath = a, cookies_jwt = c\<rparr>)) = 403)
   \<and> (no_token c \<or> (\<exists>s. c = Some (Raw s))
      \<or> (\<exists>t. c = Some (Jwt t)
             \<and> (token_expired now t \<or> \<not> signature_valid (alg t) JWT_SECRET (sig t)))
    \<longrightarrow> status (fst (mock_handler now
            \<lparr>params_0 = g, params_1 = f, mock_cookies_jwt = c\<rparr>)) = 403)"
proof (intro conjI impI)
  assume h: "no_token c \<or> (\<exists>s. c = Some (Raw s))
      \<or> (\<exists>t. c = Some (Jwt t)
             \<and> (token_expired (clock srv) t \<or> \<not> signature_valid (alg t) (JWT_PUBLIC_KEY srv) (sig t)))"
  show "status (fst (authenticateRequest srv
            \<lparr>params_groupName = g, params_assetPath = a, cookies_jwt = c\<rparr>)) = 403"
  proof (cases "no_token c")
    case True
    then show ?thesis
      by (cases c) (simp_all add: authenticateRequest_response send_def)
  next
    case False
    with h obtain x where c: "c = Some x"
      and x: "(\<exists>s. x = Raw s) \<or> (\<exists>t. x = Jwt t \<and> (token_expired (clock srv) t
                \<or> \<not> signature_valid (alg t) (JWT_PUBLIC_KEY srv) (sig t)))"
      by auto
    from verify_rejects [OF x] obtain e
      where e: "jwt_verify x (JWT_PUBLIC_KEY srv) (Some [''RS256'']) (clock srv) = Inl e"
      by blast
    show ?thesis
      using False c try_verify_fails [OF e, of g] catch_verify_error [OF e]
      by (simp add: authenticateRequest_response)
  qed
next
  assume h: "no_token c \<or> (\<exists>s. c = Some (Raw s))
      \<or> (\<exists>t. c = Some (Jwt t)
             \<and> (token_expired now t \<or> \<not> signature_valid (alg t) JWT_SECRET (sig t)))"
  show "status (fst (mock_handler now \<lparr>params_0 = g, params_1 = f, mock_cookies_jwt = c\<rparr>)) = 403"
  proof (cases "no_token c")
    case True
    then show ?thesis
      by (cases c) (simp_all add: mock_handler_response send_def)
  next
    case False
    with h obtain x where c: "c = Some x"
      and x: "(\<exists>s. x = Raw s) \<or> (\<exists>t. x = Jwt t \<and> (token_expired now t
                \<or> \<not> signature_valid (alg t) JWT_SECRET (sig t)))"
      by auto
    from verify_rejects [OF x] obtain e
      where e: "jwt_verify x JWT_SECRET None now = Inl e"
      by blast
    show ?thesis
      using False c mock_try_verify_fails [OF e, of g]
      by (simp add: mock_handler_response send_def)
  qed
qed

theorem fail_closed_witness:
  "\<not> signature_valid (alg (spoofed_token ''RS256'')) (JWT_PUBLIC_KEY sample_server)
        (sig (spoofed_token ''RS256''))
   \<and> status (fst (authenticateRequest sample_server
        \<lparr>params_groupName = ''managers'', params_assetPath = Some ''report.pdf'',
         cookies_jwt = Some (Jwt (spoofed_token ''RS256''))\<rparr>)) = 403
   \<and> \<not> signature_valid (alg (spoofed_token ''RS256'')) JWT_SECRET (sig (spoofed_token ''RS256''))
   \<and> status (fst (mock_handler 1000
        \<lparr>params_0 = ''managers'', params_1 = ''report.txt'',
         mock_cookies_jwt = Some (Jwt (spoofed_token ''RS256''))\<rparr>)) = 403"
  using fail_closed [of "Some (Jwt (spoofed_token ''RS256''))" sample_server
                        "''managers''" "Some ''report.pdf''" 1000 "''report.txt''"]
  by (simp add: spoofed_token_def)

section \<open>The override group\<close>

text \<open>
  Claim C3. For a subject whose credential verifies (a payload with an id other than 0 in
  the DB-backed service) and whose resolved groups contain \<open>Administrators\<close> (in the
  store, which answers the query; in the token for the inline-claims service), the
  response is 200 \<open>OK\<close> whatever group and asset the request names.
\<close>

theorem privilege_supersedes_group:
  "(jwt_verify c (JWT_PUBLIC_KEY srv) (Some [''RS256'']) (clock srv) = Inr decoded
      \<and> id_claim decoded = Some uid \<and> uid \<noteq> 0
      \<and> 0 \<notin> set (failing (pool srv))
      \<and> ''Administrators'' \<in> set (memberships (db (pool srv)) uid)
    \<longrightarrow> fst (authenticateRequest srv
            \<lparr>params_groupName = g, params_assetPath = a, cookies_jwt = Some c\<rparr>) = send 200 ''OK'')
   \<and> (jwt_verify c JWT_SECRET None now = Inr decoded
      \<and> groups_claim decoded = Some gs \<and> ''Administrators'' \<in> set gs
    \<longrightarrow> fst (mock_handler now
            \<lparr>params_0 = g, params_1 = f, mock_cookies_jwt = Some c\<rparr>) = send 200 ''OK'')"
  by (simp add: authenticateRequest_verified mock_handler_verified)

theorem privilege_supersedes_group_witness:
  "jwt_verify (Jwt (wiki_token 1 ''admin@test.com'')) (JWT_PUBLIC_KEY sample_server)
      (Some [''RS256'']) (clock sample_server) = Inr (payload (wiki_token 1 ''admin@test.com''))
   \<and> id_claim (payload (wiki_token 1 ''admin@test.com'')) = Some 1 \<and> (1::int) \<noteq> 0
   \<and> 0 \<notin> set (failing (pool sample_server))
   \<and> ''Administrators'' \<in> set (memberships (db (pool sample_server)) 1)
   \<and> fst (authenticateRequest sample_server
        \<lparr>params_groupName = ''finance'', params_assetPath = Some ''budget.xlsx'',
         cookies_jwt = Some (Jwt (wiki_token 1 ''admin@test.com''))\<rparr>) = send 200 ''OK''
   \<and> jwt_verify (Jwt (test_token ''HS256'' ''admin@test.com'' [''Administrators''])) JWT_SECRET None 1000
        = Inr (payload (test_token ''HS256'' ''admin@test.com'' [''Administrators'']))
   \<and> groups_claim (payload (test_token ''HS256'' ''admin@test.com'' [''Administrators'']))
        = Some [''Administrators'']
   \<and> fst (mock_handler 1000
        \<lparr>params_0 = ''finance'', params_1 = ''budget.txt'',
         mock_cookies_jwt = Some (Jwt (test_token ''HS256'' ''admin@test.com'' [''Administrators'']))\<rparr>)
       = send 200 ''OK''"
  using privilege_supersedes_group
    [where c = "Jwt (wiki_token 1 ''admin@test.com'')" and srv = sample_server
       and decoded = "payload (wiki_token 1 ''admin@test.com'')" and uid = 1
       and g = "''finance''" and a = "Some ''budget.xlsx''", THEN conjunct1]
    privilege_supersedes_group
    [where c = "Jwt (test_token ''HS256'' ''admin@test.com'' [''Administrators''])"
       and now = 1000
       and decoded = "payload (test_token ''HS256'' ''admin@test.com'' [''Administrators''])"
       and gs = "[''Administrators'']" and g = "''finance''" and f = "''budget.txt''",
     THEN conjunct2]
  by (simp add: jwt_verify_def wiki_token_def test_token_def sample_server_def sample_db_def
        memberships_def JWT_SECRET_def HS_ALGS_def RSA_KEY_ALGS_def)

section \<open>Exact group match\<close>

text \<open>
  Claim C4. For a verified subject and an answering store, the request is allowed exactly
  when the requested group is, as an exact string, one of the subject's groups, or the
  subject is in \<open>Administrators\<close>. A subject whose groups are exactly \<open>managers\<close> is
  denied with 403 for the groups \<open>Managers\<close> and \<open>management\<close>, in both services.
\<close>

theorem exact_group_match:
  "(jwt_verify c (JWT_PUBLIC_KEY srv) (Some [''RS256'']) (clock srv) = Inr decoded
      \<and> id_claim decoded = Some uid \<and> uid \<noteq> 0
      \<and> 0 \<notin> set (failing (pool srv)) \<and> 1 \<notin> set (failing (pool srv))
    \<longrightarrow> (status (fst (authenticateRequest srv
              \<lparr>params_groupName = g, params_assetPath = a, cookies_jwt = Some c\<rparr>)) = 200
           \<longleftrightarrow> g \<in> set (memberships (db (pool srv)) uid)
               \<or> ''Administrators'' \<in> set (memberships (db (pool srv)) uid))
        \<and> (set (memberships (db (pool srv)) uid) = {''managers''}
           \<longrightarrow> status (fst (authenticateRequest srv
                  \<lparr>params_groupName = ''Managers'', params_assetPath = a, cookies_jwt = Some c\<rparr>)) = 403
              \<and> status (fst (authenticateRequest srv
                  \<lparr>params_groupName = ''management'', params_assetPath = a, cookies_jwt = Some c\<rparr>)) = 403))
   \<and> (jwt_verify c JWT_SECRET None now = Inr decoded \<and> groups_claim decoded = Some gs
    \<longrightarrow> (status (fst (mock_handler now
              \<lparr>params_0 = g, params_1 = f, mock_cookies_jwt = Some c\<rparr>)) = 200
           \<longleftrightarrow> g \<in> set gs \<or> ''Administrators'' \<in> set gs)
        \<and> (gs = [''managers'']
           \<longrightarrow> fst (mock_handler now
                  \<lparr>params_0 = ''Managers'', params_1 = f, mock_cookies_jwt = Some c\<rparr>)
                 = send 403 ''Access denied''
              \<and> fst (mock_handler now
                  \<lparr>params_0 = ''management'', params_1 = f, mock_cookies_jwt = Some c\<rparr>)
                 = send 403 ''Access denied''))"
  by (auto simp: authenticateRequest_verified mock_handler_verified send_def)

theorem exact_group_match_witness:
  "jwt_verify (Jwt (wiki_token 3 ''manager@test.com'')) (JWT_PUBLIC_KEY sample_server)
      (Some [''RS256'']) (clock sample_server) = Inr (payload (wiki_token 3 ''manager@test.com''))
   \<and> id_claim (payload (wiki_token 3 ''manager@test.com'')) = Some 3 \<and> (3::int) \<noteq> 0
   \<and> 0 \<notin> set (failing (pool sample_server)) \<and> 1 \<notin> set (failing (pool sample_server))
   \<and> set (memberships (db (pool sample_server)) 3) = {''managers''}
   \<and> status (fst (authenticateRequest sample_server
        \<lparr>params_groupName = ''managers'', params_assetPath = Some ''report.pdf'',
         cookies_jwt = Some (Jwt (wiki_token 3 ''manager@test.com''))\<rparr>)) = 200
   \<and> status (fst (authenticateRequest sample_server
        \<lparr>params_groupName = ''Managers'', params_assetPath = Some ''report.pdf'',
         cookies_jwt = Some (Jwt (wiki_token 3 ''manager@test.com''))\<rparr>)) = 403
   \<and> status (fst (authenticateRequest sample_server
        \<lparr>params_groupName = ''management'', params_assetPath = Some ''report.pdf'',
         cookies_jwt = Some (Jwt (wiki_token 3 ''manager@test.com''))\<rparr>)) = 403
   \<and> jwt_verify (Jwt (test_token ''HS256'' ''manager@test.com'' [''managers''])) JWT_SECRET None 1000
        = Inr (payload (test_token ''HS256'' ''manager@test.com'' [''managers'']))
   \<and> groups_claim (payload (test_token ''HS256'' ''manager@test.com'' [''managers'']))
        = Some [''managers'']
   \<and> fst (mock_handler 1000
        \<lparr>params_0 = ''Managers'', params_1 = ''report.txt'',
         mock_cookies_jwt = Some (Jwt (test_token ''HS256'' ''manager@test.com'' [''managers'']))\<rparr>)
       = send 403 ''Access denied''
   \<and> fst (mock_handler 1000
        \<lparr>params_0 = ''management'', params_1 = ''report.txt'',
         mock_cookies_jwt = Some (Jwt (test_token ''HS256'' ''manager@test.com'' [''managers'']))\<rparr>)
       = send 403 ''Access denied''"
  using exact_group_match
    [where c = "Jwt (wiki_token 3 ''manager@test.com'')" and srv = sample_server
       and decoded = "payload (wiki_token 3 ''manager@test.com'')" and uid = 3
       and g = "''managers''" and a = "Some ''report.pdf''", THEN conjunct1]
    exact_group_match
    [where c = "Jwt (test_token ''HS256'' ''manager@test.com'' [''managers''])"
       and now = 1000
       and decoded = "payload (test_token ''HS256'' ''manager@test.com'' [''managers''])"
       and gs = "[''managers'']" and g = "''managers''" and f = "''report.txt''",
     THEN conjunct2]
  by (simp add: jwt_verify_def wiki_token_def test_token_def sample_server_def sample_db_def
        memberships_def JWT_SECRET_def HS_ALGS_def RSA_KEY_ALGS_def)

section \<open>Failure of the identity store\<close>

text \<open>
  Claim C5. When the credential verifies and a query that the handler sends to the store
  fails (the membership query, or the user query that follows an empty membership
  result), the response is 500 \<open>Server error\<close>, also for a subject that belongs to the
  requested group.
\<close>

theorem resolver_fault_denies:
  "jwt_verify c (JWT_PUBLIC_KEY srv) (Some [''RS256'']) (clock srv) = Inr decoded
     \<and> id_claim decoded = Some uid \<and> uid \<noteq> 0
     \<and> (0 \<in> set (failing (pool srv))
         \<or> (g \<notin> set (memberships (db (pool srv)) uid)
             \<and> ''Administrators'' \<notin> set (memberships (db (pool srv)) uid)
             \<and> 1 \<in> set (failing (pool srv))))
   \<longrightarrow> fst (authenticateRequest srv
          \<lparr>params_groupName = g, params_assetPath = a, cookies_jwt = Some c\<rparr>)
        = send 500 ''Server error''"
  by (auto simp: authenticateRequest_verified)

theorem resolver_fault_denies_witness:
  "jwt_verify (Jwt (wiki_token 3 ''manager@test.com'')) (RsaPublic ''wiki'') (Some [''RS256'']) 1000
     = Inr (payload (wiki_token 3 ''manager@test.com''))
   \<and> id_claim (payload (wiki_token 3 ''manager@test.com'')) = Some 3 \<and> (3::int) \<noteq> 0
   \<and> ''managers'' \<in> set (memberships sample_db 3)
   \<and> fst (authenticateRequest
        \<lparr>JWT_PUBLIC_KEY = RsaPublic ''wiki'', pool = \<lparr>db = sample_db, failing = [0]\<rparr>, clock = 1000\<rparr>
        \<lparr>params_groupName = ''managers'', params_assetPath = Some ''report.pdf'',
         cookies_jwt = Some (Jwt (wiki_token 3 ''manager@test.com''))\<rparr>)
       = send 500 ''Server error''
   \<and> ''finance'' \<notin> set (memberships sample_db 3)
   \<and> ''Administrators'' \<notin> set (memberships sample_db 3)
   \<and> fst (authenticateRequest
        \<lparr>JWT_PUBLIC_KEY = RsaPublic ''wiki'', pool = \<lparr>db = sample_db, failing = [1]\<rparr>, clock = 1000\<rparr>
        \<lparr>params_groupName = ''finance'', params_assetPath = Some ''budget.xlsx'',
         cookies_jwt = Some (Jwt (wiki_token 3 ''manager@test.com''))\<rparr>)
       = send 500 ''Server error''"
  using resolver_fault_denies
    [where c = "Jwt (wiki_token 3 ''manager@test.com'')"
       and srv = "\<lparr>JWT_PUBLIC_KEY = RsaPublic ''wiki'', pool = \<lparr>db = sample_db, failing = [0]\<rparr>, clock = 1000\<rparr>"
       and decoded = "payload (wiki_token 3 ''manager@test.com'')" and uid = 3
       and g = "''managers''" and a = "Some ''report.pdf''"]
    resolver_fault_denies
    [where c = "Jwt (wiki_token 3 ''manager@test.com'')"
       and srv = "\<lparr>JWT_PUBLIC_KEY = RsaPublic ''wiki'', pool = \<lparr>db = sample_db, failing = [1]\<rparr>, clock = 1000\<rparr>"
       and decoded = "payload (wiki_token 3 ''manager@test.com'')" and uid = 3
       and g = "''finance''" and a = "Some ''budget.xlsx''"]
  by (simp add: jwt_verify_def wiki_token_def sample_db_def memberships_def RSA_KEY_ALGS_def)

section \<open>Expired and invalid tokens\<close>

text \<open>
  Claim C6. In the DB-backed service a token of the accepted algorithm whose signature
  verifies and whose expiry time has passed is answered 403 \<open>JWT expired\<close>; a token
  whose signature does not verify is answered 403 \<open>Invalid JWT signature\<close>; the two
  responses differ.
\<close>

theorem expired_distinct_from_invalid_signature:
  "(alg t = ''RS256'' \<and> signature_valid (alg t) (JWT_PUBLIC_KEY srv) (sig t)
      \<and> token_expired (clock srv) t
    \<longrightarrow> fst (authenticateRequest srv
            \<lparr>params_groupName = g, params_assetPath = a, cookies_jwt = Some (Jwt t)\<rparr>)
          = send 403 ''JWT expired'')
   \<and> (\<not> signature_valid (alg t) (JWT_PUBLIC_KEY srv) (sig t)
    \<longrightarrow> fst (authenticateRequest srv
            \<lparr>params_groupName = g, params_assetPath = a, cookies_jwt = Some (Jwt t)\<rparr>)
          = send 403 ''Invalid JWT signature'')
   \<and> send 403 ''JWT expired'' \<noteq> send 403 ''Invalid JWT signature''"
proof (intro conjI impI)
  assume h: "alg t = ''RS256'' \<and> signature_valid (alg t) (JWT_PUBLIC_KEY srv) (sig t)
      \<and> token_expired (clock srv) t"
  then have "sig t \<noteq> NoSignature"
    by (cases "sig t") auto
  with h have "jwt_verify (Jwt t) (JWT_PUBLIC_KEY srv) (Some [''RS256'']) (clock srv)
      = Inl (TokenExpiredError ''jwt expired'')"
    by (auto simp: jwt_verify_def token_expired_def split: option.splits)
  from try_verify_fails [OF this, of g]
  show "fst (authenticateRequest srv
            \<lparr>params_groupName = g, params_assetPath = a, cookies_jwt = Some (Jwt t)\<rparr>)
          = send 403 ''JWT expired''"
    by (simp add: authenticateRequest_response authenticate_catch_def TokenExpiredError_def)
next
  assume h: "\<not> signature_valid (alg t) (JWT_PUBLIC_KEY srv) (sig t)"
  from verify_bad_signature [OF this] obtain e
    where e: "jwt_verify (Jwt t) (JWT_PUBLIC_KEY srv) (Some [''RS256'']) (clock srv) = Inl e"
      and n: "name e = ''JsonWebTokenError''"
    by blast
  from try_verify_fails [OF e, of g] n
  show "fst (authenticateRequest srv
            \<lparr>params_groupName = g, params_assetPath = a, cookies_jwt = Some (Jwt t)\<rparr>)
          = send 403 ''Invalid JWT signature''"
    by (simp add: authenticateRequest_response authenticate_catch_def)
next
  show "send 403 ''JWT expired'' \<noteq> send 403 ''Invalid JWT signature''"
    by (simp add: send_def)
qed

theorem expired_distinct_from_invalid_signature_witness:
  "alg (wiki_token 3 ''manager@test.com'') = ''RS256''
   \<and> signature_valid (alg (wiki_token 3 ''manager@test.com'')) (RsaPublic ''wiki'')
        (sig (wiki_token 3 ''manager@test.com''))
   \<and> token_expired 2000 (wiki_token 3 ''manager@test.com'')
   \<and> fst (authenticateRequest
        \<lparr>JWT_PUBLIC_KEY = RsaPublic ''wiki'', pool = \<lparr>db = sample_db, failing = []\<rparr>, clock = 2000\<rparr>
        \<lparr>params_groupName = ''managers'', params_assetPath = Some ''report.pdf'',
         cookies_jwt = Some (Jwt (wiki_token 3 ''manager@test.com''))\<rparr>)
       = send 403 ''JWT expired''
   \<and> \<not> signature_valid (alg (spoofed_token ''RS256'')) (RsaPublic ''wiki'')
        (sig (spoofed_token ''RS256''))
   \<and> fst (authenticateRequest
        \<lparr>JWT_PUBLIC_KEY = RsaPublic ''wiki'', pool = \<lparr>db = sample_db, failing = []\<rparr>, clock = 2000\<rparr>
        \<lparr>params_groupName = ''managers'', params_assetPath = Some ''report.pdf'',
         cookies_jwt = Some (Jwt (spoofed_token ''RS256''))\<rparr>)
       = send 403 ''Invalid JWT signature''"
  using expired_distinct_from_invalid_signature
    [where t = "wiki_token 3 ''manager@test.com''"
       and srv = "\<lparr>JWT_PUBLIC_KEY = RsaPublic ''wiki'', pool = \<lparr>db = sample_db, failing = []\<rparr>, clock = 2000\<rparr>"
       and g = "''managers''" and a = "Some ''report.pdf''"]
    expired_distinct_from_invalid_signature
    [where t = "spoofed_token ''RS256''"
       and srv = "\<lparr>JWT_PUBLIC_KEY = RsaPublic ''wiki'', pool = \<lparr>db = sample_db, failing = []\<rparr>, clock = 2000\<rparr>"
       and g = "''managers''" and a = "Some ''report.pdf''"]
  by (simp add: wiki_token_def spoofed_token_def token_expired_def RSA_KEY_ALGS_def)

section \<open>Accepted signing algorithms\<close>

text \<open>
  The inline-claims service passes no \<open>algorithms\<close> option to the verifier, so it accepts
  more than one algorithm: a token signed with the shared secret is allowed under
  \<open>HS256\<close> and under \<open>HS384\<close>.
\<close>

theorem single_algorithm_counterexample:
  "fst (mock_handler 1000
      \<lparr>params_0 = ''managers'', params_1 = ''report.txt'',
       mock_cookies_jwt = Some (Jwt (test_token ''HS256'' ''manager@test.com'' [''managers'']))\<rparr>)
     = send 200 ''OK''
   \<and> fst (mock_handler 1000
      \<lparr>params_0 = ''managers'', params_1 = ''report.txt'',
       mock_cookies_jwt = Some (Jwt (test_token ''HS384'' ''manager@test.com'' [''managers'']))\<rparr>)
     = send 200 ''OK''"
  by (simp add: mock_handler_response mock_try_def jwt_verify_def test_token_def JWT_SECRET_def
        HS_ALGS_def array_includes_def)

text \<open>
  Claim C2, as amended. The DB-backed service accepts the algorithm \<open>RS256\<close> and no
  other: a token that declares any other algorithm, \<open>none\<close> included, is answered
  403. The inline-claims service accepts the algorithms of the family of its shared
  secret, \<open>HS256\<close>, \<open>HS384\<close> and \<open>HS512\<close>: a token that declares an algorithm
  outside this family, \<open>none\<close> included, is answered 403.
\<close>

theorem accepted_algorithms:
  "(alg t \<noteq> ''RS256''
    \<longrightarrow> fst (authenticateRequest srv
            \<lparr>params_groupName = g, params_assetPath = a, cookies_jwt = Some (Jwt t)\<rparr>)
          = send 403 ''Invalid JWT signature'')
   \<and> (alg t = ''RS256'' \<and> signature_valid (alg t) (JWT_PUBLIC_KEY srv) (sig t)
        \<and> \<not> token_expired (clock srv) t
    \<longrightarrow> jwt_verify (Jwt t) (JWT_PUBLIC_KEY srv) (Some [''RS256'']) (clock srv) = Inr (payload t))
   \<and> (alg t \<notin> set HS_ALGS
    \<longrightarrow> fst (mock_handler now
            \<lparr>params_0 = g, params_1 = f, mock_cookies_jwt = Some (Jwt t)\<rparr>)
          = send 403 ''Invalid JWT'')
   \<and> (alg t \<in> set HS_ALGS \<and> signature_valid (alg t) JWT_SECRET (sig t)
        \<and> \<not> token_expired now t
    \<longrightarrow> jwt_verify (Jwt t) JWT_SECRET None now = Inr (payload t))"
proof (intro conjI impI)
  assume "alg t \<noteq> ''RS256''"
  then have "alg t \<notin> set [''RS256'']" by simp
  from verify_wrong_algorithm [OF this] obtain e
    where e: "jwt_verify (Jwt t) (JWT_PUBLIC_KEY srv) (Some [''RS256'']) (clock srv) = Inl e"
      and n: "name e = ''JsonWebTokenError''"
    by blast
  from try_verify_fails [OF e, of g] n
  show "fst (authenticateRequest srv
            \<lparr>params_groupName = g, params_assetPath = a, cookies_jwt = Some (Jwt t)\<rparr>)
          = send 403 ''Invalid JWT signature''"
    by (simp add: authenticateRequest_response authenticate_catch_def)
next
  assume "alg t = ''RS256'' \<and> signature_valid (alg t) (JWT_PUBLIC_KEY srv) (sig t)
        \<and> \<not> token_expired (clock srv) t"
  then show "jwt_verify (Jwt t) (JWT_PUBLIC_KEY srv) (Some [''RS256'']) (clock srv) = Inr (payload t)"
    using verify_accepts [of t "[''RS256'']" "JWT_PUBLIC_KEY srv" "clock srv"] by auto
next
  assume "alg t \<notin> set HS_ALGS"
  then have "\<exists>e. jwt_verify (Jwt t) JWT_SECRET None now = Inl e"
    by (simp add: jwt_verify_def JWT_SECRET_def)
  then obtain e where "jwt_verify (Jwt t) JWT_SECRET None now = Inl e"
    by blast
  from mock_try_verify_fails [OF this, of g]
  show "fst (mock_handler now \<lparr>params_0 = g, params_1 = f, mock_cookies_jwt = Some (Jwt t)\<rparr>)
          = send 403 ''Invalid JWT''"
    by (simp add: mock_handler_response)
next
  assume "alg t \<in> set HS_ALGS \<and> signature_valid (alg t) JWT_SECRET (sig t)
        \<and> \<not> token_expired now t"
  then show "jwt_verify (Jwt t) JWT_SECRET None now = Inr (payload t)"
    by (cases "sig t") (auto simp: jwt_verify_def token_expired_def JWT_SECRET_def split: option.splits)
qed

theorem accepted_algorithms_witness:
  "alg none_token \<noteq> ''RS256''
   \<and> fst (authenticateRequest sample_server
        \<lparr>params_groupName = ''managers'', params_assetPath = Some ''report.pdf'',
         cookies_jwt = Some (Jwt none_token)\<rparr>) = send 403 ''Invalid JWT signature''
   \<and> alg none_token \<notin> set HS_ALGS
   \<and> fst (mock_handler 1000
        \<lparr>params_0 = ''managers'', params_1 = ''report.txt'',
         mock_cookies_jwt = Some (Jwt none_token)\<rparr>) = send 403 ''Invalid JWT''
   \<and> alg (wiki_token 1 ''admin@test.com'') = ''RS256''
   \<and> signature_valid (alg (wiki_token 1 ''admin@test.com'')) (JWT_PUBLIC_KEY sample_server)
        (sig (wiki_token 1 ''admin@test.com''))
   \<and> \<not> token_expired (clock sample_server) (wiki_token 1 ''admin@test.com'')
   \<and> jwt_verify (Jwt (wiki_token 1 ''admin@test.com'')) (JWT_PUBLIC_KEY sample_server)
        (Some [''RS256'']) (clock sample_server) = Inr (payload (wiki_token 1 ''admin@test.com''))
   \<and> alg (test_token ''HS512'' ''dev@test.com'' [''developers'']) \<in> set HS_ALGS
   \<and> signature_valid (alg (test_token ''HS512'' ''dev@test.com'' [''developers''])) JWT_SECRET
        (sig (test_token ''HS512'' ''dev@test.com'' [''developers'']))
   \<and> \<not> token_expired 1000 (test_token ''HS512'' ''dev@test.com'' [''developers''])
   \<and> jwt_verify (Jwt (test_token ''HS512'' ''dev@test.com'' [''developers''])) JWT_SECRET None 1000
        = Inr (payload (test_token ''HS512'' ''dev@test.com'' [''developers'']))"
  using accepted_algorithms
    [where t = none_token and srv = sample_server and g = "''managers''"
       and a = "Some ''report.pdf''" and now = 1000 and f = "''report.txt''"]
    accepted_algorithms
    [where t = "wiki_token 1 ''admin@test.com''" and srv = sample_server]
    accepted_algorithms
    [where t = "test_token ''HS512'' ''dev@test.com'' [''developers'']" and now = 1000]
  by (simp add: none_token_def wiki_token_def test_token_def sample_server_def token_expired_def
        HS_ALGS_def RSA_KEY_ALGS_def JWT_SECRET_def)

section \<open>Nested asset paths\<close>

text \<open>
  Claim C8. The request that the edge server sends for the nested asset
  \<open>project1/diagram.png\<close> of the group \<open>dev\<close> matches no route of the DB-backed service:
  Express answers 404 and \<open>authenticateRequest\<close> is not called, whatever the credential.
  The regular expression of the inline-claims service matches the same path, with the
  group \<open>dev\<close> and the asset path \<open>project1/diagram.png\<close>, and a member of \<open>dev\<close> is
  allowed.
\<close>

theorem nested_path_not_routed:
  "status (fst (app srv \<lparr>url = ''/auth/dev/project1/diagram.png'', jwt_cookie = c\<rparr>)) = 404
   \<and> mock_route ''/auth/dev/project1/diagram.png'' = Some (''dev'', ''project1/diagram.png'')
   \<and> fst (mock_app 1000 \<lparr>url = ''/auth/dev/project1/diagram.png'',
        jwt_cookie = Some (Jwt (test_token ''HS256'' ''dev@test.com'' [''dev'']))\<rparr>) = send 200 ''OK''"
  by (simp add: app_def not_found_def send_def mock_route_def mock_app_def mock_handler_response
        mock_try_def jwt_verify_def test_token_def JWT_SECRET_def HS_ALGS_def array_includes_def)

section \<open>Bodies of the denials\<close>

text \<open>
  Two denied requests with different bodies: without a cookie the DB-backed service
  answers \<open>No JWT token\<close>, for a token with a made-up signature it answers
  \<open>Invalid JWT signature\<close>.
\<close>

theorem denial_bodies_counterexample:
  "status (fst (authenticateRequest sample_server
      \<lparr>params_groupName = ''managers'', params_assetPath = Some ''report.pdf'',
       cookies_jwt = None\<rparr>)) = 403
   \<and> status (fst (authenticateRequest sample_server
      \<lparr>params_groupName = ''managers'', params_assetPath = Some ''report.pdf'',
       cookies_jwt = Some (Jwt (spoofed_token ''RS256''))\<rparr>)) = 403
   \<and> body (fst (authenticateRequest sample_server
      \<lparr>params_groupName = ''managers'', params_assetPath = Some ''report.pdf'',
       cookies_jwt = None\<rparr>))
     \<noteq> body (fst (authenticateRequest sample_server
      \<lparr>params_groupName = ''managers'', params_assetPath = Some ''report.pdf'',
       cookies_jwt = Some (Jwt (spoofed_token ''RS256''))\<rparr>))"
  by (simp add: authenticateRequest_response authenticate_try_def authenticate_catch_def
        jwt_verify_def spoofed_token_def sample_server_def send_def JsonWebTokenError_def)

text \<open>
  Claim C9, as amended. A denial has status 403 and a body fixed by the branch of the
  handler that denies; the bodies of different branches differ. In the DB-backed
  service: a missing or empty cookie gives \<open>No JWT token\<close>; a cookie that does not parse
  as a token, or a token whose signature does not verify, gives \<open>Invalid JWT signature\<close>;
  a token of the accepted algorithm with a verifying signature and a passed expiry time
  gives \<open>JWT expired\<close>; a verified payload without an id other than 0 gives
  \<open>Invalid JWT payload\<close>; a verified subject that is in neither the requested group nor
  \<open>Administrators\<close>, with an answering store, gives \<open>Not in group "g" or Administrators\<close>
  for the requested group \<open>g\<close> when the user exists and \<open>User not found\<close> when it does
  not. In the inline-claims service: a missing or empty cookie gives \<open>No JWT\<close>; a cookie
  that does not parse, an expired token, a token whose signature does not verify, or a
  verified payload without groups gives \<open>Invalid JWT\<close>; a verified subject in neither
  the requested group nor \<open>Administrators\<close> gives \<open>Access denied\<close>.
\<close>

theorem denial_bodies:
  "(no_token c
    \<longrightarrow> fst (authenticateRequest srv
            \<lparr>params_groupName = g, params_assetPath = a, cookies_jwt = c\<rparr>)
          = send 403 ''No JWT token'')
   \<and> ((\<exists>s. s \<noteq> [] \<and> x = Raw s)
        \<or> (\<exists>t. x = Jwt t \<and> \<not> signature_valid (alg t) (JWT_PUBLIC_KEY srv) (sig t))
    \<longrightarrow> fst (authenticateRequest srv
            \<lparr>params_groupName = g, params_assetPath = a, cookies_jwt = Some x\<rparr>)
          = send 403 ''Invalid JWT signature'')
   \<and> ((\<exists>t. x = Jwt t \<and> alg t = ''RS256''
             \<and> signature_valid (alg t) (JWT_PUBLIC_KEY srv) (sig t)
             \<and> token_expired (clock srv) t)
    \<longrightarrow> fst (authenticateRequest srv
            \<lparr>params_groupName = g, params_assetPath = a, cookies_jwt = Some x\<rparr>)
          = send 403 ''JWT expired'')
   \<and> (jwt_verify x (JWT_PUBLIC_KEY srv) (Some [''RS256'']) (clock srv) = Inr decoded
        \<and> (id_claim decoded = None \<or> id_claim decoded = Some 0)
    \<longrightarrow> fst (authenticateRequest srv
            \<lparr>params_groupName = g, params_assetPath = a, cookies_jwt = Some x\<rparr>)
          = send 403 ''Invalid JWT payload'')
   \<and> (jwt_verify x (JWT_PUBLIC_KEY srv) (Some [''RS256'']) (clock srv) = Inr decoded
        \<and> id_claim decoded = Some uid \<and> uid \<noteq> 0
        \<and> 0 \<notin> set (failing (pool srv)) \<and> 1 \<notin> set (failing (pool srv))
        \<and> g \<notin> set (memberships (db (pool srv)) uid)
        \<and> ''Administrators'' \<notin> set (memberships (db (pool srv)) uid)
    \<longrightarrow> fst (authenticateRequest srv
            \<lparr>params_groupName = g, params_assetPath = a, cookies_jwt = Some x\<rparr>)
          = (if user_rows uid (db (pool srv)) \<noteq> []
             then send 403 (''Not in group \"'' @ g @ ''\" or Administrators'')
             else send 403 ''User not found''))
   \<and> (no_token c
    \<longrightarrow> fst (mock_handler now \<lparr>params_0 = g, params_1 = f, mock_cookies_jwt = c\<rparr>)
          = send 403 ''No JWT'')
   \<and> ((\<exists>s. s \<noteq> [] \<and> x = Raw s)
        \<or> (\<exists>t. x = Jwt t \<and> (token_expired now t \<or> \<not> signature_valid (alg t) JWT_SECRET (sig t)))
        \<or> (\<exists>d. jwt_verify x JWT_SECRET None now = Inr d \<and> groups_claim d = None)
    \<longrightarrow> fst (mock_handler now \<lparr>params_0 = g, params_1 = f, mock_cookies_jwt = Some x\<rparr>)
          = send 403 ''Invalid JWT'')
   \<and> (jwt_verify x JWT_SECRET None now = Inr decoded \<and> groups_claim decoded = Some gs
        \<and> g \<notin> set gs \<and> ''Administrators'' \<notin> set gs
    \<longrightarrow> fst (mock_handler now \<lparr>params_0 = g, params_1 = f, mock_cookies_jwt = Some x\<rparr>)
          = send 403 ''Access denied'')
   \<and> distinct [send 403 ''No JWT token'', send 403 ''Invalid JWT signature'',
                 send 403 ''JWT expired'', send 403 ''Invalid JWT payload'',
                 send 403 (''Not in group \"'' @ g @ ''\" or Administrators''),
                 send 403 ''User not found'']
   \<and> distinct [send 403 ''No JWT'', send 403 ''Invalid JWT'', send 403 ''Access denied'']"
proof (intro conjI impI)
  assume "no_token c"
  then show "fst (authenticateRequest srv
            \<lparr>params_groupName = g, params_assetPath = a, cookies_jwt = c\<rparr>)
          = send 403 ''No JWT token''"
    by (cases c) (simp_all add: authenticateRequest_response)
next
  assume h: "(\<exists>s. s \<noteq> [] \<and> x = Raw s)
        \<or> (\<exists>t. x = Jwt t \<and> \<not> signature_valid (alg t) (JWT_PUBLIC_KEY srv) (sig t))"
  then have nt: "\<not> no_token (Some x)"
    by auto
  from h have "\<exists>e. jwt_verify x (JWT_PUBLIC_KEY srv) (Some [''RS256'']) (clock srv) = Inl e
      \<and> name e = ''JsonWebTokenError''"
  proof
    assume "\<exists>s. s \<noteq> [] \<and> x = Raw s"
    then show ?thesis
      by (auto simp: verify_malformed JsonWebTokenError_def)
  next
    assume "\<exists>t. x = Jwt t \<and> \<not> signature_valid (alg t) (JWT_PUBLIC_KEY srv) (sig t)"
    then show ?thesis
      using verify_bad_signature by blast
  qed
  then obtain e
    where e: "jwt_verify x (JWT_PUBLIC_KEY srv) (Some [''RS256'']) (clock srv) = Inl e"
      and n: "name e = ''JsonWebTokenError''"
    by blast
  show "fst (authenticateRequest srv
            \<lparr>params_groupName = g, params_assetPath = a, cookies_jwt = Some x\<rparr>)
          = send 403 ''Invalid JWT signature''"
    using authenticateRequest_verifier_error [OF nt e] n by simp
next
  assume "\<exists>t. x = Jwt t \<and> alg t = ''RS256''
             \<and> signature_valid (alg t) (JWT_PUBLIC_KEY srv) (sig t)
             \<and> token_expired (clock srv) t"
  then obtain t where x: "x = Jwt t" and a: "alg t \<in> set [''RS256'']"
    and s: "signature_valid (alg t) (JWT_PUBLIC_KEY srv) (sig t)"
    and e: "token_expired (clock srv) t"
    by auto
  have nt: "\<not> no_token (Some x)"
    using x by simp
  show "fst (authenticateRequest srv
            \<lparr>params_groupName = g, params_assetPath = a, cookies_jwt = Some x\<rparr>)
          = send 403 ''JWT expired''"
    using authenticateRequest_verifier_error [OF nt, of srv "TokenExpiredError ''jwt expired''"]
      verify_expired [OF a s e] x
    by (simp add: TokenExpiredError_def)
next
  assume "jwt_verify x (JWT_PUBLIC_KEY srv) (Some [''RS256'']) (clock srv) = Inr decoded
        \<and> (id_claim decoded = None \<or> id_claim decoded = Some 0)"
  then show "fst (authenticateRequest srv
            \<lparr>params_groupName = g, params_assetPath = a, cookies_jwt = Some x\<rparr>)
          = send 403 ''Invalid JWT payload''"
    using authenticateRequest_invalid_payload by blast
next
  assume "jwt_verify x (JWT_PUBLIC_KEY srv) (Some [''RS256'']) (clock srv) = Inr decoded
        \<and> id_claim decoded = Some uid \<and> uid \<noteq> 0
        \<and> 0 \<notin> set (failing (pool srv)) \<and> 1 \<notin> set (failing (pool srv))
        \<and> g \<notin> set (memberships (db (pool srv)) uid)
        \<and> ''Administrators'' \<notin> set (memberships (db (pool srv)) uid)"
  then show "fst (authenticateRequest srv
            \<lparr>params_groupName = g, params_assetPath = a, cookies_jwt = Some x\<rparr>)
          = (if user_rows uid (db (pool srv)) \<noteq> []
             then send 403 (''Not in group \"'' @ g @ ''\" or Administrators'')
             else send 403 ''User not found'')"
    by (simp add: authenticateRequest_verified)
next
  assume "no_token c"
  then show "fst (mock_handler now \<lparr>params_0 = g, params_1 = f, mock_cookies_jwt = c\<rparr>)
          = send 403 ''No JWT''"
    by (cases c) (simp_all add: mock_handler_response)
next
  assume h: "(\<exists>s. s \<noteq> [] \<and> x = Raw s)
        \<or> (\<exists>t. x = Jwt t \<and> (token_expired now t \<or> \<not> signature_valid (alg t) JWT_SECRET (sig t)))
        \<or> (\<exists>d. jwt_verify x JWT_SECRET None now = Inr d \<and> groups_claim d = None)"
  show "fst (mock_handler now \<lparr>params_0 = g, params_1 = f, mock_cookies_jwt = Some x\<rparr>)
          = send 403 ''Invalid JWT''"
  proof (cases "\<exists>d. jwt_verify x JWT_SECRET None now = Inr d \<and> groups_claim d = None")
    case True
    then obtain d where d: "jwt_verify x JWT_SECRET None now = Inr d" and n: "groups_claim d = None"
      by blast
    show ?thesis
      using verified_is_token [OF d] d n
      by (simp add: mock_handler_response mock_try_def)
  next
    case False
    with h have r: "(\<exists>s. x = Raw s)
        \<or> (\<exists>t. x = Jwt t \<and> (token_expired now t \<or> \<not> signature_valid (alg t) JWT_SECRET (sig t)))"
      and nt: "\<not> no_token (Some x)"
      by auto
    from verify_rejects [OF r] obtain e where "jwt_verify x JWT_SECRET None now = Inl e"
      by blast
    from mock_handler_verifier_error [OF nt this] show ?thesis .
  qed
next
  assume "jwt_verify x JWT_SECRET None now = Inr decoded \<and> groups_claim decoded = Some gs
        \<and> g \<notin> set gs \<and> ''Administrators'' \<notin> set gs"
  then show "fst (mock_handler now \<lparr>params_0 = g, params_1 = f, mock_cookies_jwt = Some x\<rparr>)
          = send 403 ''Access denied''"
    by (simp add: mock_handler_verified)
next
  show "distinct [send 403 ''No JWT token'', send 403 ''Invalid JWT signature'',
                 send 403 ''JWT expired'', send 403 ''Invalid JWT payload'',
                 send 403 (''Not in group \"'' @ g @ ''\" or Administrators''),
                 send 403 ''User not found'']"
    by (simp add: send_def)
  show "distinct [send 403 ''No JWT'', send 403 ''Invalid JWT'', send 403 ''Access denied'']"
    by (simp add: send_def)
qed

theorem denial_bodies_witness:
  "no_token None
   \<and> fst (authenticateRequest sample_server
        \<lparr>params_groupName = ''managers'', params_assetPath = Some ''report.pdf'',
         cookies_jwt = None\<rparr>) = send 403 ''No JWT token''
   \<and> fst (mock_handler 1000
        \<lparr>params_0 = ''managers'', params_1 = ''report.txt'', mock_cookies_jwt = None\<rparr>)
       = send 403 ''No JWT''
   \<and> \<not> signature_valid (alg (spoofed_token ''RS256'')) (JWT_PUBLIC_KEY sample_server)
        (sig (spoofed_token ''RS256''))
   \<and> fst (authenticateRequest sample_server
        \<lparr>params_groupName = ''managers'', params_assetPath = Some ''report.pdf'',
         cookies_jwt = Some (Jwt (spoofed_token ''RS256''))\<rparr>) = send 403 ''Invalid JWT signature''
   \<and> alg (wiki_token 3 ''manager@test.com'') = ''RS256''
   \<and> signature_valid (alg (wiki_token 3 ''manager@test.com'')) (RsaPublic ''wiki'')
        (sig (wiki_token 3 ''manager@test.com''))
   \<and> token_expired 2000 (wiki_token 3 ''manager@test.com'')
   \<and> fst (authenticateRequest
        \<lparr>JWT_PUBLIC_KEY = RsaPublic ''wiki'', pool = \<lparr>db = sample_db, failing = []\<rparr>, clock = 2000\<rparr>
        \<lparr>params_groupName = ''managers'', params_assetPath = Some ''report.pdf'',
         cookies_jwt = Some (Jwt (wiki_token 3 ''manager@test.com''))\<rparr>) = send 403 ''JWT expired''
   \<and> jwt_verify (Jwt (wiki_token 0 ''nobody@test.com'')) (JWT_PUBLIC_KEY sample_server)
        (Some [''RS256'']) (clock sample_server) = Inr (payload (wiki_token 0 ''nobody@test.com''))
   \<and> id_claim (payload (wiki_token 0 ''nobody@test.com'')) = Some 0
   \<and> fst (authenticateRequest sample_server
        \<lparr>params_groupName = ''managers'', params_assetPath = Some ''report.pdf'',
         cookies_jwt = Some (Jwt (wiki_token 0 ''nobody@test.com''))\<rparr>) = send 403 ''Invalid JWT payload''
   \<and> jwt_verify (Jwt (wiki_token 3 ''manager@test.com'')) (JWT_PUBLIC_KEY sample_server)
        (Some [''RS256'']) (clock sample_server) = Inr (payload (wiki_token 3 ''manager@test.com''))
   \<and> id_claim (payload (wiki_token 3 ''manager@test.com'')) = Some 3 \<and> (3::int) \<noteq> 0
   \<and> 0 \<notin> set (failing (pool sample_server)) \<and> 1 \<notin> set (failing (pool sample_server))
   \<and> ''finance'' \<notin> set (memberships (db (pool sample_server)) 3)
   \<and> ''Administrators'' \<notin> set (memberships (db (pool sample_server)) 3)
   \<and> fst (authenticateRequest sample_server
        \<lparr>params_groupName = ''finance'', params_assetPath = Some ''budget.xlsx'',
         cookies_jwt = Some (Jwt (wiki_token 3 ''manager@test.com''))\<rparr>)
       = send 403 ''Not in group \"finance\" or Administrators''
   \<and> jwt_verify (Jwt (wiki_token 7 ''gone@test.com'')) (JWT_PUBLIC_KEY sample_server)
        (Some [''RS256'']) (clock sample_server) = Inr (payload (wiki_token 7 ''gone@test.com''))
   \<and> id_claim (payload (wiki_token 7 ''gone@test.com'')) = Some 7 \<and> (7::int) \<noteq> 0
   \<and> ''finance'' \<notin> set (memberships (db (pool sample_server)) 7)
   \<and> ''Administrators'' \<notin> set (memberships (db (pool sample_server)) 7)
   \<and> fst (authenticateRequest sample_server
        \<lparr>params_groupName = ''finance'', params_assetPath = Some ''budget.xlsx'',
         cookies_jwt = Some (Jwt (wiki_token 7 ''gone@test.com''))\<rparr>) = send 403 ''User not found''
   \<and> \<not> signature_valid (alg (spoofed_token ''HS256'')) JWT_SECRET (sig (spoofed_token ''HS256''))
   \<and> fst (mock_handler 1000
        \<lparr>params_0 = ''managers'', params_1 = ''report.txt'',
         mock_cookies_jwt = Some (Jwt (spoofed_token ''HS256''))\<rparr>) = send 403 ''Invalid JWT''
   \<and> token_expired 5000 (test_token ''HS256'' ''manager@test.com'' [''managers''])
   \<and> fst (mock_handler 5000
        \<lparr>params_0 = ''managers'', params_1 = ''report.txt'',
         mock_cookies_jwt = Some (Jwt (test_token ''HS256'' ''manager@test.com'' [''managers'']))\<rparr>)
       = send 403 ''Invalid JWT''
   \<and> jwt_verify (Jwt (test_token ''HS256'' ''manager@test.com'' [''managers''])) JWT_SECRET None 1000
        = Inr (payload (test_token ''HS256'' ''manager@test.com'' [''managers'']))
   \<and> groups_claim (payload (test_token ''HS256'' ''manager@test.com'' [''managers'']))
        = Some [''managers'']
   \<and> ''finance'' \<notin> set [''managers''] \<and> ''Administrators'' \<notin> set [''managers'']
   \<and> fst (mock_handler 1000
        \<lparr>params_0 = ''finance'', params_1 = ''budget.txt'',
         mock_cookies_jwt = Some (Jwt (test_token ''HS256'' ''manager@test.com'' [''managers'']))\<rparr>)
       = send 403 ''Access denied''"
  using denial_bodies
    [where c = None and srv = sample_server and g = "''managers''"
       and a = "Some ''report.pdf''" and now = 1000 and f = "''report.txt''"
       and x = "Jwt (spoofed_token ''RS256'')"]
    denial_bodies
    [where x = "Jwt (wiki_token 3 ''manager@test.com'')"
       and srv = "\<lparr>JWT_PUBLIC_KEY = RsaPublic ''wiki'', pool = \<lparr>db = sample_db, failing = []\<rparr>, clock = 2000\<rparr>"
       and g = "''managers''" and a = "Some ''report.pdf''"]
    denial_bodies
    [where x = "Jwt (wiki_token 0 ''nobody@test.com'')" and srv = sample_server
       and decoded = "payload (wiki_token 0 ''nobody@test.com'')"
       and g = "''managers''" and a = "Some ''report.pdf''"]
    denial_bodies
    [where x = "Jwt (wiki_token 3 ''manager@test.com'')" and srv = sample_server
       and decoded = "payload (wiki_token 3 ''manager@test.com'')" and uid = 3
       and g = "''finance''" and a = "Some ''budget.xlsx''"]
    denial_bodies
    [where x = "Jwt (wiki_token 7 ''gone@test.com'')" and srv = sample_server
       and decoded = "payload (wiki_token 7 ''gone@test.com'')" and uid = 7
       and g = "''finance''" and a = "Some ''budget.xlsx''"]
    denial_bodies
    [where x = "Jwt (spoofed_token ''HS256'')" and now = 1000
       and g = "''managers''" and f = "''report.txt''"]
    denial_bodies
    [where x = "Jwt (test_token ''HS256'' ''manager@test.com'' [''managers''])" and now = 5000
       and g = "''managers''" and f = "''report.txt''"]
    denial_bodies
    [where x = "Jwt (test_token ''HS256'' ''manager@test.com'' [''managers''])" and now = 1000
       and decoded = "payload (test_token ''HS256'' ''manager@test.com'' [''managers''])"
       and gs = "[''managers'']" and g = "''finance''" and f = "''budget.txt''"]
  by (simp add: jwt_verify_def wiki_token_def test_token_def spoofed_token_def sample_server_def
        sample_db_def memberships_def user_rows_def token_expired_def JWT_SECRET_def HS_ALGS_def
        RSA_KEY_ALGS_def)

section \<open>The asset path and the decision\<close>

text \<open>
  Claim C10. With the same server state, group and cookie, the response (status and
  body) does not depend on the asset path: in both handlers, and for any two paths that
  match a route of the same service with the same group. Only the log differs.
\<close>

theorem decision_independent_of_asset_path:
  "fst (authenticateRequest srv \<lparr>params_groupName = g, params_assetPath = a1, cookies_jwt = c\<rparr>)
     = fst (authenticateRequest srv \<lparr>params_groupName = g, params_assetPath = a2, cookies_jwt = c\<rparr>)
   \<and> fst (mock_handler now \<lparr>params_0 = g, params_1 = f1, mock_cookies_jwt = c\<rparr>)
     = fst (mock_handler now \<lparr>params_0 = g, params_1 = f2, mock_cookies_jwt = c\<rparr>)
   \<and> (routed_group u1 = Some g \<and> routed_group u2 = Some g
      \<longrightarrow> fst (app srv \<lparr>url = u1, jwt_cookie = c\<rparr>) = fst (app srv \<lparr>url = u2, jwt_cookie = c\<rparr>))
   \<and> (mock_route u1 = Some (g, f1) \<and> mock_route u2 = Some (g, f2)
      \<longrightarrow> fst (mock_app now \<lparr>url = u1, jwt_cookie = c\<rparr>)
          = fst (mock_app now \<lparr>url = u2, jwt_cookie = c\<rparr>))"
  using authenticateRequest_asset_path [of srv g a1 c a2]
  by (simp add: mock_handler_response app_routed mock_app_routed split: option.splits)

theorem decision_independent_of_asset_path_witness:
  "routed_group ''/auth/managers/report.pdf'' = Some ''managers''
   \<and> routed_group ''/auth/managers/'' = Some ''managers''
   \<and> fst (app sample_server \<lparr>url = ''/auth/managers/report.pdf'',
          jwt_cookie = Some (Jwt (wiki_token 3 ''manager@test.com''))\<rparr>)
     = fst (app sample_server \<lparr>url = ''/auth/managers/'',
          jwt_cookie = Some (Jwt (wiki_token 3 ''manager@test.com''))\<rparr>)
   \<and> mock_route ''/auth/managers/report.txt'' = Some (''managers'', ''report.txt'')
   \<and> mock_route ''/auth/managers/2024/q1/plan.txt'' = Some (''managers'', ''2024/q1/plan.txt'')
   \<and> fst (mock_app 1000 \<lparr>url = ''/auth/managers/report.txt'',
          jwt_cookie = Some (Jwt (test_token ''HS256'' ''manager@test.com'' [''managers'']))\<rparr>)
     = fst (mock_app 1000 \<lparr>url = ''/auth/managers/2024/q1/plan.txt'',
          jwt_cookie = Some (Jwt (test_token ''HS256'' ''manager@test.com'' [''managers'']))\<rparr>)"
  using decision_independent_of_asset_path
    [where ?u1.0 = "''/auth/managers/report.pdf''" and ?u2.0 = "''/auth/managers/''"
       and g = "''managers''" and srv = sample_server
       and c = "Some (Jwt (wiki_token 3 ''manager@test.com''))"]
    decision_independent_of_asset_path
    [where ?u1.0 = "''/auth/managers/report.txt''" and ?u2.0 = "''/auth/managers/2024/q1/plan.txt''"
       and g = "''managers''" and ?f1.0 = "''report.txt''" and ?f2.0 = "''2024/q1/plan.txt''"
       and now = 1000
       and c = "Some (Jwt (test_token ''HS256'' ''manager@test.com'' [''managers'']))"]
  by (simp add: routed_group_def mock_route_def)

section \<open>The path of the request\<close>




end
